theory Spec2Isabelle
  imports Main
begin

section \<open>The JavaScript Date operations the booking screen uses\<close>

text \<open>
  A JavaScript \<open>Date\<close> holds an instant: milliseconds since the epoch, in UTC.
  The local getters and setters (\<open>getDay\<close>, \<open>getHours\<close>, \<open>getMinutes\<close>,
  \<open>setHours\<close>) read and write it through the host's zone offset \<open>tz\<close>
  (milliseconds east of UTC); \<open>toISOString\<close> renders it in UTC.  The offset is
  one number: these are the operations of a host whose zone offset does not change
  (no daylight-saving or other transition), and what is proved below of bounds and
  slots is proved for such a host.  Where the offset changes during the day, the real
  \<open>setHours\<close> and \<open>getHours\<close> use the offset in force at the time
  concerned, and the bounds of a window lie a different number of minutes apart.
  Every \<open>new Date()\<close> is one reading of the wall clock: a \<open>clock\<close> gives
  the reading of the \<open>k\<close>-th call, and the code that reads it carries the count
  \<open>tick\<close>.
\<close>

type_synonym instant = int

type_synonym clock = "nat \<Rightarrow> instant"

definition LocalTime :: "int \<Rightarrow> instant \<Rightarrow> int" where
  "LocalTime tz t = t + tz"

definition getHours :: "int \<Rightarrow> instant \<Rightarrow> int" where
  "getHours tz t = (LocalTime tz t mod 86400000) div 3600000"

definition getMinutes :: "int \<Rightarrow> instant \<Rightarrow> int" where
  "getMinutes tz t = (LocalTime tz t mod 3600000) div 60000"

text \<open>Day of the week, 0 = Sunday; the epoch day was a Thursday.\<close>

definition getDay :: "int \<Rightarrow> instant \<Rightarrow> int" where
  "getDay tz t = (LocalTime tz t div 86400000 + 4) mod 7"

text \<open>\<open>d.setHours(hour, min, sec, ms)\<close>: the local calendar day of \<open>d\<close> is kept.\<close>

definition setHours :: "int \<Rightarrow> instant \<Rightarrow> int \<Rightarrow> int \<Rightarrow> int \<Rightarrow> int \<Rightarrow> instant" where
  "setHours tz t hour mn sec ms =
     (LocalTime tz t div 86400000) * 86400000
       + (hour * 3600000 + mn * 60000 + sec * 1000 + ms) - tz"

text \<open>
  \<open>d.toISOString().split('T')[0]\<close>: the UTC calendar date of the instant.  A
  calendar date (the string \<open>YYYY-MM-DD\<close>, and the \<open>date\<close> column of the
  database) is represented by its day number, counted from the epoch day.
\<close>

definition toISOString_date :: "instant \<Rightarrow> int" where
  "toISOString_date t = t div 86400000"

text \<open>The local calendar date of an instant: what the date strip of the screen shows.\<close>

definition local_date :: "int \<Rightarrow> instant \<Rightarrow> int" where
  "local_date tz t = LocalTime tz t div 86400000"

section \<open>Rows of the backend and derived slots\<close>

text \<open>
  A value of a \<open>time\<close> column, which the backend renders \<open>HH:MM:SS\<close>: the
  record holds the three numeric fields, so equality of records is equality of the
  rendered strings.
\<close>

record time_of_day =
  hours :: nat
  minutes :: nat
  seconds :: nat

datatype status = scheduled | confirmed | completed | cancelled | no_show

record availability_row =
  av_doctor_id :: string
  day_of_week :: int
  av_start_time :: time_of_day
  av_end_time :: time_of_day
  slot_duration :: "int option"
  is_available :: "bool option"

record appointment_row =
  ap_patient_id :: string
  ap_doctor_id :: string
  appointment_date :: int
  ap_start_time :: time_of_day
  ap_end_time :: time_of_day
  ap_status :: status

record TimeSlot =
  start_time :: time_of_day
  end_time :: time_of_day
  available :: bool

section \<open>The booking screen: fetchAvailableSlots\<close>

text \<open>
  \<open>parseTime\<close> keeps the first two fields of the time string and places them on
  the local day of a fresh clock reading \<open>now\<close>.
\<close>

definition parseTime :: "int \<Rightarrow> instant \<Rightarrow> time_of_day \<Rightarrow> instant" where
  "parseTime tz now timeString =
     setHours tz now (int (hours timeString)) (int (minutes timeString)) 0 0"

definition formatTimeToString :: "int \<Rightarrow> instant \<Rightarrow> time_of_day" where
  "formatTimeToString tz timestamp =
     \<lparr>hours = nat (getHours tz timestamp), minutes = nat (getMinutes tz timestamp),
      seconds = 0\<rparr>"

text \<open>\<open>bookedSlots?.some(...)\<close>: a null result makes the test falsy.\<close>

definition isBooked :: "appointment_row list option \<Rightarrow> time_of_day \<Rightarrow> time_of_day \<Rightarrow> bool" where
  "isBooked bookedSlots startTimeStr endTimeStr =
     (case bookedSlots of
        None \<Rightarrow> False
      | Some bs \<Rightarrow>
          list_ex (\<lambda>booked. ap_start_time booked = startTimeStr
                           \<and> ap_end_time booked = endTimeStr) bs)"

definition slotDateTime :: "int \<Rightarrow> instant \<Rightarrow> time_of_day \<Rightarrow> instant" where
  "slotDateTime tz selectedDate startTimeStr =
     setHours tz selectedDate (int (hours startTimeStr)) (int (minutes startTimeStr)) 0 0"

text \<open>The object pushed for one cursor position; \<open>now\<close> is the clock reading
  of \<open>slotDateTime < new Date()\<close>.\<close>

definition new_slot ::
  "int \<Rightarrow> appointment_row list option \<Rightarrow> instant \<Rightarrow> instant \<Rightarrow> instant \<Rightarrow> instant \<Rightarrow> TimeSlot" where
  "new_slot tz bookedSlots selectedDate now currentTime slotEnd =
     (let startTimeStr = formatTimeToString tz currentTime;
          endTimeStr = formatTimeToString tz slotEnd;
          booked = isBooked bookedSlots startTimeStr endTimeStr;
          isPast = (slotDateTime tz selectedDate startTimeStr < now)
      in \<lparr>start_time = startTimeStr, end_time = endTimeStr,
          available = (\<not> booked \<and> \<not> isPast)\<rparr>)"

text \<open>
  One pass through the body of the \<open>while\<close> loop.  The loop state is the cursor
  \<open>currentTime\<close>, the array \<open>slots\<close> and the number of clock readings
  taken so far.
\<close>

definition slot_step ::
  "int \<Rightarrow> clock \<Rightarrow> appointment_row list option \<Rightarrow> instant \<Rightarrow> int \<Rightarrow> instant
     \<Rightarrow> instant \<times> TimeSlot list \<times> nat \<Rightarrow> instant \<times> TimeSlot list \<times> nat" where
  "slot_step tz clk bookedSlots selectedDate slotDuration endTime s =
     (case s of (currentTime, slots, tick) \<Rightarrow>
        (let slotEnd = currentTime + slotDuration * 60000 in
         if slotEnd \<le> endTime
         then (slotEnd,
               slots @ [new_slot tz bookedSlots selectedDate (clk tick) currentTime slotEnd],
               Suc tick)
         else (slotEnd, slots, tick)))"

text \<open>The \<open>while\<close> loop; it need not return (a negative duration), so its
  result is an option.\<close>

partial_function (option) slot_while ::
  "int \<Rightarrow> clock \<Rightarrow> appointment_row list option \<Rightarrow> instant \<Rightarrow> int \<Rightarrow> instant
     \<Rightarrow> instant \<times> TimeSlot list \<times> nat \<Rightarrow> (TimeSlot list \<times> nat) option" where
  "slot_while tz clk bookedSlots selectedDate slotDuration endTime s =
     (if fst s < endTime
      then slot_while tz clk bookedSlots selectedDate slotDuration endTime
             (slot_step tz clk bookedSlots selectedDate slotDuration endTime s)
      else Some (snd s))"

declare slot_while.simps [code]

text \<open>\<open>availability.slot_duration || 30\<close>: null and 0 are falsy.\<close>

definition effective_duration :: "availability_row \<Rightarrow> int" where
  "effective_duration availability =
     (case slot_duration availability of
        None \<Rightarrow> 30
      | Some d \<Rightarrow> if d = 0 then 30 else d)"

text \<open>The callback of \<open>forEach\<close>, for one availability row.\<close>

definition window_slots ::
  "int \<Rightarrow> clock \<Rightarrow> appointment_row list option \<Rightarrow> instant \<Rightarrow> availability_row
     \<Rightarrow> TimeSlot list \<times> nat \<Rightarrow> (TimeSlot list \<times> nat) option" where
  "window_slots tz clk bookedSlots selectedDate availability st =
     (case st of (slots, tick) \<Rightarrow>
        (let slotDuration = effective_duration availability;
             startTime = parseTime tz (clk tick) (av_start_time availability);
             endTime = parseTime tz (clk (Suc tick)) (av_end_time availability)
         in slot_while tz clk bookedSlots selectedDate slotDuration endTime
              (startTime, slots, Suc (Suc tick))))"

fun forEach :: "('a \<Rightarrow> 's \<Rightarrow> 's option) \<Rightarrow> 'a list \<Rightarrow> 's \<Rightarrow> 's option" where
  "forEach f [] st = Some st"
| "forEach f (x # xs) st = (case f x st of None \<Rightarrow> None | Some st' \<Rightarrow> forEach f xs st')"

text \<open>
  The slot computation proper (from \<open>const slots = []\<close> to the end of
  \<open>availabilityData?.forEach\<close>): \<open>slot_run\<close> gives the array and the number
  of clock readings taken, \<open>None\<close> when a loop does not return.
\<close>

definition slot_run ::
  "int \<Rightarrow> clock \<Rightarrow> availability_row list \<Rightarrow> appointment_row list option \<Rightarrow> instant
     \<Rightarrow> (TimeSlot list \<times> nat) option" where
  "slot_run tz clk rows bookedSlots selectedDate =
     forEach (window_slots tz clk bookedSlots selectedDate) rows ([], 0)"

definition generateSlots ::
  "int \<Rightarrow> clock \<Rightarrow> availability_row list option \<Rightarrow> appointment_row list option \<Rightarrow> instant
     \<Rightarrow> TimeSlot list option" where
  "generateSlots tz clk availabilityData bookedSlots selectedDate =
     (case availabilityData of
        None \<Rightarrow> Some []
      | Some rows \<Rightarrow> map_option fst (slot_run tz clk rows bookedSlots selectedDate))"

subsection \<open>The two queries and the whole of fetchAvailableSlots\<close>

text \<open>
  The backend holds the two tables as the session of the signed-in user sees them:
  row-level security shows the availability rows to everybody and shows an appointment
  only to its patient and its doctor, and \<open>appointments\<close> is the table after that
  policy.  A request either fails with the error it names or answers with the rows the
  filters keep, in table order (neither request of the booking screen asks for an
  order).
\<close>

record backend =
  doctor_availability :: "availability_row list"
  appointments :: "appointment_row list"
  select_availability_error :: "string option"
  select_appointments_error :: "string option"
  insert_appointment_error :: "string option"
  insert_availability_error :: "string option"

datatype 'a response = Response (data: "'a list option") (error: "string option")

definition select_availability :: "backend \<Rightarrow> string \<Rightarrow> int \<Rightarrow> availability_row response" where
  "select_availability be doctor dayOfWeek =
     (case select_availability_error be of
        Some e \<Rightarrow> Response None (Some e)
      | None \<Rightarrow>
          Response
            (Some (filter (\<lambda>a. av_doctor_id a = doctor \<and> day_of_week a = dayOfWeek
                                \<and> is_available a = Some True)
                     (doctor_availability be)))
            None)"

definition select_booked :: "backend \<Rightarrow> string \<Rightarrow> int \<Rightarrow> appointment_row response" where
  "select_booked be doctor dateString =
     (case select_appointments_error be of
        Some e \<Rightarrow> Response None (Some e)
      | None \<Rightarrow>
          Response
            (Some (filter (\<lambda>a. ap_doctor_id a = doctor \<and> appointment_date a = dateString
                                \<and> (ap_status a = scheduled \<or> ap_status a = confirmed))
                     (appointments be)))
            None)"

text \<open>
  What a call of \<open>fetchAvailableSlots\<close> ends in: \<open>setAvailableSlots(slots)\<close>, or
  the \<open>catch\<close> branch, which logs the error and leaves the state as it was.
\<close>

datatype fetch_outcome = SetAvailableSlots "TimeSlot list" | FetchError string

definition fetchAvailableSlots ::
  "int \<Rightarrow> clock \<Rightarrow> backend \<Rightarrow> string \<Rightarrow> instant \<Rightarrow> fetch_outcome option" where
  "fetchAvailableSlots tz clk be doctor selectedDate =
     (let dayOfWeek = getDay tz selectedDate;
          dateString = toISOString_date selectedDate;
          availabilityData = select_availability be doctor dayOfWeek
      in case error availabilityData of
           Some availError \<Rightarrow> Some (FetchError availError)
         | None \<Rightarrow>
             (let bookedSlots = select_booked be doctor dateString
              in case error bookedSlots of
                   Some bookedError \<Rightarrow> Some (FetchError bookedError)
                 | None \<Rightarrow>
                     map_option SetAvailableSlots
                       (generateSlots tz clk (data availabilityData) (data bookedSlots)
                          selectedDate)))"

subsection \<open>handleBookAppointment\<close>

text \<open>
  The state of the booking screen that the handler reads or writes, and what it does to
  the outside.  \<open>fetchAvailableSlots\<close> has one caller, the effect hook on
  \<open>[selectedDate, doctorId]\<close>: it runs again when one of the two changes and the
  doctor's id is there.  The hook compares the \<open>Date\<close> object held in
  \<open>selectedDate\<close> by identity, so the state holds the identity of that object
  beside its instant: a new object with the same instant runs the fetch again.  An
  absent id and the empty string are both falsy.  Columns that the slot logic never
  reads (the fee) are left out of the inserted row.
\<close>

record booking_screen =
  s_user :: "string option"
  s_doctorId :: "string option"
  s_selectedDate :: instant
  s_selectedDate_ref :: nat
  s_availableSlots :: "TimeSlot list"
  s_selectedSlot :: "TimeSlot option"
  s_booking :: bool

datatype effect =
    InsertAppointment appointment_row
  | ConsoleError string
  | Alert string string

definition refetches :: "booking_screen \<Rightarrow> booking_screen \<Rightarrow> bool" where
  "refetches st st' =
     ((s_selectedDate_ref st' \<noteq> s_selectedDate_ref st \<or> s_doctorId st' \<noteq> s_doctorId st)
      \<and> s_doctorId st' \<noteq> None \<and> s_doctorId st' \<noteq> Some [])"

definition handleBookAppointment ::
  "booking_screen \<Rightarrow> backend \<Rightarrow> booking_screen \<times> backend \<times> effect list" where
  "handleBookAppointment st be =
     (case (s_user st, s_selectedSlot st, s_doctorId st) of
        (Some user, Some selectedSlot, Some doctor) \<Rightarrow>
          if doctor = [] then (st, be, []) else
          (let st1 = st\<lparr>s_booking := True\<rparr>;
               dateString = toISOString_date (s_selectedDate st1);
               row = \<lparr>ap_patient_id = user, ap_doctor_id = doctor,
                      appointment_date = dateString,
                      ap_start_time = start_time selectedSlot,
                      ap_end_time = end_time selectedSlot,
                      ap_status = scheduled\<rparr>
           in case insert_appointment_error be of
                None \<Rightarrow>
                  (st1\<lparr>s_booking := False\<rparr>,
                   be\<lparr>appointments := appointments be @ [row]\<rparr>,
                   [InsertAppointment row,
                    Alert ''Booking Confirmed''
                      ''Your appointment has been booked successfully!''])
              | Some message \<Rightarrow>
                  (st1\<lparr>s_booking := False\<rparr>,
                   be,
                   [InsertAppointment row,
                    ConsoleError ''Error booking appointment:'',
                    Alert ''Booking Failed''
                      (if message = [] then ''Failed to book appointment'' else message)]))
      | _ \<Rightarrow> (st, be, []))"

section \<open>The availability modal: handleAdd\<close>

definition HOURS :: "nat list" where
  "HOURS = [0..<24]"

definition MINUTES :: "nat list" where
  "MINUTES = [0, 15, 30, 45]"

definition SLOT_DURATIONS :: "int list" where
  "SLOT_DURATIONS = [15, 30, 45, 60]"

record modal_state =
  startHour :: nat
  startMinute :: nat
  endHour :: nat
  endMinute :: nat
  slotDuration :: int
  loading :: bool

definition formatTime :: "nat \<Rightarrow> nat \<Rightarrow> time_of_day" where
  "formatTime hour minute = \<lparr>hours = hour, minutes = minute, seconds = 0\<rparr>"

text \<open>
  What the modal does to the outside: the alert, or the call of its \<open>onAdd\<close>
  property, followed by \<open>onClose\<close> when that call returns and by the log when it
  throws.  \<open>onAdd\<close> acts on the state \<open>w\<close> outside the modal and tells
  whether it returned.
\<close>

datatype modal_effect =
    AlertInvalid string string
  | OnAdd time_of_day time_of_day int
  | OnClose
  | LogError string

definition handleAdd ::
  "modal_state \<Rightarrow> (time_of_day \<Rightarrow> time_of_day \<Rightarrow> int \<Rightarrow> 'w \<Rightarrow> 'w \<times> bool) \<Rightarrow> 'w
     \<Rightarrow> modal_state \<times> 'w \<times> modal_effect list" where
  "handleAdd st onAdd w =
     (let startTime = formatTime (startHour st) (startMinute st);
          endTime = formatTime (endHour st) (endMinute st);
          start = startHour st * 60 + startMinute st;
          end' = endHour st * 60 + endMinute st
      in if start \<ge> end'
         then (st, w, [AlertInvalid ''Invalid Time'' ''End time must be after start time''])
         else (case onAdd startTime endTime (slotDuration st) w of
                 (w', True) \<Rightarrow>
                   (st\<lparr>loading := False\<rparr>, w',
                    [OnAdd startTime endTime (slotDuration st), OnClose])
               | (w', False) \<Rightarrow>
                   (st\<lparr>loading := False\<rparr>, w',
                    [OnAdd startTime endTime (slotDuration st),
                     LogError ''Error adding availability:''])))"

text \<open>
  The calendar screen's \<open>handleAddAvailability\<close>, which the modal receives as
  \<open>onAdd\<close>: the only place that inserts an availability row.  It returns without
  inserting when nobody is signed in, and rethrows a failed insert.
\<close>

definition handleAddAvailability ::
  "string option \<Rightarrow> int \<Rightarrow> time_of_day \<Rightarrow> time_of_day \<Rightarrow> int \<Rightarrow> backend \<Rightarrow> backend \<times> bool" where
  "handleAddAvailability user selectedDayIndex startTime endTime duration be =
     (case user of
        None \<Rightarrow> (be, True)
      | Some uid \<Rightarrow>
          if uid = [] then (be, True) else
          (case insert_availability_error be of
             Some e \<Rightarrow> (be, False)
           | None \<Rightarrow>
               (be\<lparr>doctor_availability := doctor_availability be @
                     [\<lparr>av_doctor_id = uid, day_of_week = selectedDayIndex,
                       av_start_time = startTime, av_end_time = endTime,
                       slot_duration = Some duration, is_available = Some True\<rparr>]\<rparr>,
                True)))"

text \<open>Order of two times of day, field by field, as the \<open>time\<close> type orders them.\<close>

definition time_less :: "time_of_day \<Rightarrow> time_of_day \<Rightarrow> bool" where
  "time_less a b =
     (hours a < hours b
      \<or> (hours a = hours b \<and> (minutes a < minutes b
           \<or> (minutes a = minutes b \<and> seconds a < seconds b))))"

text \<open>Minutes since local midnight, as the modal and \<open>parseTime\<close> count them: the
  seconds field does not enter.\<close>

definition minute_of_day :: "time_of_day \<Rightarrow> int" where
  "minute_of_day t = int (hours t) * 60 + int (minutes t)"

text \<open>Seconds since midnight of a time of day, all three fields counted.\<close>

definition second_of_day :: "time_of_day \<Rightarrow> int" where
  "second_of_day t = int (hours t) * 3600 + int (minutes t) * 60 + int (seconds t)"

text \<open>The time of day \<open>HH:MM:00\<close> that lies \<open>x\<close> minutes after midnight.\<close>

definition minute_time :: "int \<Rightarrow> time_of_day" where
  "minute_time x = \<lparr>hours = nat (x div 60), minutes = nat (x mod 60), seconds = 0\<rparr>"

text \<open>What the \<open>time\<close> type holds: hours, minutes and seconds of a day.\<close>

definition time_of_day_ok :: "time_of_day \<Rightarrow> bool" where
  "time_of_day_ok t = (hours t < 24 \<and> minutes t < 60 \<and> seconds t < 60)"

text \<open>A state of the modal that its pickers can produce.\<close>

definition picked :: "modal_state \<Rightarrow> bool" where
  "picked st =
     (startHour st \<in> set HOURS \<and> startMinute st \<in> set MINUTES
      \<and> endHour st \<in> set HOURS \<and> endMinute st \<in> set MINUTES
      \<and> slotDuration st \<in> set SLOT_DURATIONS)"

section \<open>Clocks and sample data\<close>

text \<open>A clock that stands still at one instant, and one that passes to the next
  millisecond just before its reading number \<open>j\<close>.\<close>

definition frozen :: "instant \<Rightarrow> clock" where
  "frozen now k = now"

definition ticks_at :: "instant \<Rightarrow> nat \<Rightarrow> clock" where
  "ticks_at t0 j k = (if k < j then t0 else t0 + 1)"

text \<open>The offset of a host four hours east of UTC.\<close>

definition gulf :: int where
  "gulf = 14400000"

text \<open>Local midnight of Monday 2026-01-05 (day 20458 from the epoch day) for a host at
  offset \<open>tz\<close>, and an instant of that local day.\<close>

definition monday :: "int \<Rightarrow> instant" where
  "monday tz = 20458 * 86400000 - tz"

definition monday_at :: "int \<Rightarrow> int \<Rightarrow> int \<Rightarrow> instant" where
  "monday_at tz h m = monday tz + h * 3600000 + m * 60000"

definition window :: "time_of_day \<Rightarrow> time_of_day \<Rightarrow> int option \<Rightarrow> availability_row" where
  "window s e d =
     \<lparr>av_doctor_id = ''dr'', day_of_week = 1, av_start_time = s, av_end_time = e,
      slot_duration = d, is_available = Some True\<rparr>"

definition reservation :: "int \<Rightarrow> time_of_day \<Rightarrow> time_of_day \<Rightarrow> status \<Rightarrow> appointment_row" where
  "reservation day s e st =
     \<lparr>ap_patient_id = ''pt'', ap_doctor_id = ''dr'', appointment_date = day,
      ap_start_time = s, ap_end_time = e, ap_status = st\<rparr>"

definition tables :: "availability_row list \<Rightarrow> appointment_row list \<Rightarrow> backend" where
  "tables av ap =
     \<lparr>doctor_availability = av, appointments = ap,
      select_availability_error = None, select_appointments_error = None,
      insert_appointment_error = None, insert_availability_error = None\<rparr>"

definition slot :: "time_of_day \<Rightarrow> time_of_day \<Rightarrow> bool \<Rightarrow> TimeSlot" where
  "slot s e a = \<lparr>start_time = s, end_time = e, available = a\<rparr>"

text \<open>A patient on the booking screen who has chosen the slot 09:30 to 10:00 of that
  Monday, and a modal whose pickers stand at the given times.\<close>

definition chosen :: booking_screen where
  "chosen =
     \<lparr>s_user = Some ''pt'', s_doctorId = Some ''dr'', s_selectedDate = monday_at 0 8 0,
      s_selectedDate_ref = 0,
      s_availableSlots = [slot (formatTime 9 0) (formatTime 9 30) True,
                          slot (formatTime 9 30) (formatTime 10 0) True],
      s_selectedSlot = Some (slot (formatTime 9 30) (formatTime 10 0) True),
      s_booking = False\<rparr>"

definition pickers :: "nat \<Rightarrow> nat \<Rightarrow> nat \<Rightarrow> nat \<Rightarrow> modal_state" where
  "pickers h1 m1 h2 m2 =
     \<lparr>startHour = h1, startMinute = m1, endHour = h2, endMinute = m2,
      slotDuration = 30, loading = False\<rparr>"

section \<open>The loop, one pass at a time\<close>

lemma slot_step_fst:
  "fst (slot_step tz clk bs sd d e s) = fst s + d * 60000"
  by (cases s) (simp add: slot_step_def Let_def)

lemma slot_while_exit:
  "\<not> fst s < e \<Longrightarrow> slot_while tz clk bs sd d e s = Some (snd s)"
  by (subst slot_while.simps) simp

lemma slot_while_iter:
  "fst s < e \<Longrightarrow> slot_while tz clk bs sd d e s
     = slot_while tz clk bs sd d e (slot_step tz clk bs sd d e s)"
  by (subst slot_while.simps) simp


text \<open>With a duration that is not positive the loop returns only when it is never
  entered.\<close>

lemma slot_while_Some_exit:
  assumes "slot_while tz clk bs sd d e s = Some r" and "d \<le> 0"
  shows "\<not> fst s < e"
proof -
  have "d \<le> 0 \<longrightarrow> \<not> fst s < e"
  proof (rule slot_while.raw_induct
      [where P = "\<lambda>tz clk bs sd d e s r. d \<le> 0 \<longrightarrow> \<not> fst s < e", OF _ assms(1)])
    fix sw :: "int \<Rightarrow> clock \<Rightarrow> appointment_row list option \<Rightarrow> instant \<Rightarrow> int \<Rightarrow> instant
       \<Rightarrow> instant \<times> TimeSlot list \<times> nat \<Rightarrow> (TimeSlot list \<times> nat) option"
    fix tz clk bs sd d e s r
    assume IH: "\<And>tz clk bs sd d e s r. sw tz clk bs sd d e s = Some r
                  \<Longrightarrow> d \<le> 0 \<longrightarrow> \<not> fst s < e"
      and eq: "(if fst s < e then sw tz clk bs sd d e (slot_step tz clk bs sd d e s)
                else Some (snd s)) = Some r"
    show "d \<le> 0 \<longrightarrow> \<not> fst s < e"
    proof (intro impI notI)
      assume neg: "d \<le> 0" and lt: "fst s < e"
      from eq lt have "sw tz clk bs sd d e (slot_step tz clk bs sd d e s) = Some r"
        by simp
      from IH [OF this] neg have "\<not> fst (slot_step tz clk bs sd d e s) < e" by simp
      moreover have "d * 60000 \<le> 0" using neg by simp
      ultimately show False using lt by (simp add: slot_step_fst)
    qed
  qed
  with assms(2) show ?thesis by simp
qed

lemma slot_while_diverges:
  "d \<le> 0 \<Longrightarrow> fst s < e \<Longrightarrow> slot_while tz clk bs sd d e s = None"
  using slot_while_Some_exit [of tz clk bs sd d e s]
  by (cases "slot_while tz clk bs sd d e s") auto

text \<open>The result of the loop in closed form, for a positive duration.\<close>

lemma slot_while_closed:
  assumes "0 < d"
  shows "nat ((e - cur) div (d * 60000)) = n \<Longrightarrow>
    slot_while tz clk bs sd d e (cur, slots, k)
      = Some (slots @ map (\<lambda>i. new_slot tz bs sd (clk (k + i))
                                 (cur + int i * (d * 60000))
                                 (cur + int (Suc i) * (d * 60000))) [0..<n],
              k + n)"
proof (induction n arbitrary: cur slots k)
  case 0
  have step: "0 < d * 60000" using assms by simp
  from 0 have "\<not> 0 < (e - cur) div (d * 60000)" by simp
  then have lt: "e - cur < d * 60000"
    using step pos_imp_zdiv_pos_iff [of "d * 60000" "e - cur"] by linarith
  show ?case
  proof (cases "cur < e")
    case True
    then have "slot_while tz clk bs sd d e (cur, slots, k)
        = slot_while tz clk bs sd d e (cur + d * 60000, slots, k)"
      using lt by (simp add: slot_while_iter slot_step_def Let_def)
    also have "\<dots> = Some (slots, k)"
      using lt by (simp add: slot_while_exit)
    finally show ?thesis by simp
  next
    case False
    then show ?thesis by (simp add: slot_while_exit)
  qed
next
  case (Suc m)
  have step: "0 < d * 60000" using assms by simp
  from Suc.prems have q: "(e - cur) div (d * 60000) = int m + 1" by linarith
  then have "0 < (e - cur) div (d * 60000)" by simp
  then have ge: "d * 60000 \<le> e - cur"
    using step by (simp add: pos_imp_zdiv_pos_iff)
  have "(e - (cur + d * 60000) + d * 60000) div (d * 60000)
          = (e - (cur + d * 60000)) div (d * 60000) + 1"
    using step by (intro div_add_self2) simp
  then have m: "nat ((e - (cur + d * 60000)) div (d * 60000)) = m"
    using q by simp
  let ?s0 = "new_slot tz bs sd (clk k) cur (cur + d * 60000)"
  have "slot_while tz clk bs sd d e (cur, slots, k)
      = slot_while tz clk bs sd d e (cur + d * 60000, slots @ [?s0], Suc k)"
    using ge step by (simp add: slot_while_iter slot_step_def Let_def)
  also have "\<dots> = Some ((slots @ [?s0]) @ map (\<lambda>i. new_slot tz bs sd (clk (Suc k + i))
                                 (cur + d * 60000 + int i * (d * 60000))
                                 (cur + d * 60000 + int (Suc i) * (d * 60000))) [0..<m],
              Suc k + m)"
    by (rule Suc.IH [OF m])
  also have "\<dots> = Some (slots @ map (\<lambda>i. new_slot tz bs sd (clk (k + i))
                                 (cur + int i * (d * 60000))
                                 (cur + int (Suc i) * (d * 60000))) [0..<Suc m],
              k + Suc m)"
    by (simp add: upt_conv_Cons map_Suc_upt [symmetric] algebra_simps del: upt_Suc)
  finally show ?case .
qed

section \<open>Instants on the minute grid of a local day\<close>

lemma getHours_grid:
  assumes "0 \<le> x" "x < 1440"
  shows "getHours tz (q * 86400000 + x * 60000 - tz) = x div 60"
proof -
  have b: "0 \<le> x * 60000" "x * 60000 < 86400000" using assms by auto
  have "(q * 86400000 + x * 60000) mod 86400000 = x * 60000"
    using b by simp
  moreover have "x * 60000 div 3600000 = x div 60"
  proof -
    have "x * 60000 div (60 * 60000) = x div 60"
      by (rule div_mult_mult2) simp
    then show ?thesis by simp
  qed
  ultimately show ?thesis by (simp add: getHours_def LocalTime_def)
qed

lemma getMinutes_grid:
  "getMinutes tz (q * 86400000 + x * 60000 - tz) = x mod 60"
proof -
  have "(q * 86400000 + x * 60000) mod 3600000 = (x * 60000) mod 3600000"
  proof -
    have "q * 86400000 = (q * 24) * 3600000" by simp
    then show ?thesis by (metis mod_mult_self4 mult.commute)
  qed
  moreover have "(x * 60000) mod 3600000 = (x mod 60) * 60000"
  proof -
    have "(x * 60000) mod (60 * 60000) = (x mod 60) * 60000"
      by (rule mult_mod_left [symmetric])
    then show ?thesis by simp
  qed
  ultimately show ?thesis by (simp add: getMinutes_def LocalTime_def)
qed

lemma formatTimeToString_grid:
  "0 \<le> x \<Longrightarrow> x < 1440 \<Longrightarrow>
     formatTimeToString tz (q * 86400000 + x * 60000 - tz) = minute_time x"
  by (simp add: formatTimeToString_def minute_time_def getHours_grid getMinutes_grid)

lemma parseTime_grid:
  "parseTime tz now t = local_date tz now * 86400000 + minute_of_day t * 60000 - tz"
  by (simp add: parseTime_def setHours_def local_date_def minute_of_day_def algebra_simps)

lemma minute_of_day_minute_time:
  "0 \<le> x \<Longrightarrow> minute_of_day (minute_time x) = x"
  by (simp add: minute_of_day_def minute_time_def pos_imp_zdiv_nonneg_iff)

lemma minute_time_minute_of_day:
  "minutes t < 60 \<Longrightarrow> minute_time (minute_of_day t) = t\<lparr>seconds := 0\<rparr>"
  by (simp add: minute_of_day_def minute_time_def)

lemma minute_of_day_bounds:
  "hours t < 24 \<Longrightarrow> minutes t < 60 \<Longrightarrow> 0 \<le> minute_of_day t \<and> minute_of_day t < 1440"
  by (simp add: minute_of_day_def)

lemma new_slot_start:
  "start_time (new_slot tz bs sd now cur e) = formatTimeToString tz cur"
  by (simp add: new_slot_def Let_def)

lemma new_slot_end:
  "end_time (new_slot tz bs sd now cur e) = formatTimeToString tz e"
  by (simp add: new_slot_def Let_def)

text \<open>The cursor positions of a window, as instants.\<close>

lemma window_slots_closed:
  fixes w :: availability_row and tz :: int and clk :: clock and k :: nat
  defines "D \<equiv> effective_duration w"
    and "M \<equiv> minute_of_day (av_start_time w)"
    and "S \<equiv> minute_of_day (av_end_time w) - minute_of_day (av_start_time w)"
    and "q \<equiv> local_date tz (clk k)"
  assumes pos: "0 < D"
    and day: "local_date tz (clk k) = local_date tz (clk (Suc k))"
  shows "window_slots tz clk bs sd w (slots, k)
     = Some (slots @ map (\<lambda>i. new_slot tz bs sd (clk (Suc (Suc k) + i))
                 (q * 86400000 + (M + int i * D) * 60000 - tz)
                 (q * 86400000 + (M + int (Suc i) * D) * 60000 - tz)) [0..<nat (S div D)],
             Suc (Suc k) + nat (S div D))"
proof -
  let ?st = "parseTime tz (clk k) (av_start_time w)"
  let ?en = "parseTime tz (clk (Suc k)) (av_end_time w)"
  have "?en - ?st = S * 60000"
    using day by (simp add: parseTime_grid S_def algebra_simps)
  then have "(?en - ?st) div (D * 60000) = S div D"
    using pos by simp
  then have n: "nat ((?en - ?st) div (D * 60000)) = nat (S div D)" by simp
  have st: "?st = q * 86400000 + M * 60000 - tz"
    by (simp add: parseTime_grid q_def M_def)
  have "window_slots tz clk bs sd w (slots, k)
      = slot_while tz clk bs sd D ?en (?st, slots, Suc (Suc k))"
    by (simp add: window_slots_def Let_def D_def)
  also have "\<dots> = Some (slots @ map (\<lambda>i. new_slot tz bs sd (clk (Suc (Suc k) + i))
                                 (?st + int i * (D * 60000))
                                 (?st + int (Suc i) * (D * 60000))) [0..<nat (S div D)],
              Suc (Suc k) + nat (S div D))"
    by (rule slot_while_closed [OF pos n])
  also have "\<dots> = Some (slots @ map (\<lambda>i. new_slot tz bs sd (clk (Suc (Suc k) + i))
                 (q * 86400000 + (M + int i * D) * 60000 - tz)
                 (q * 86400000 + (M + int (Suc i) * D) * 60000 - tz)) [0..<nat (S div D)],
             Suc (Suc k) + nat (S div D))"
    by (simp add: st algebra_simps)
  finally show ?thesis .
qed

section \<open>Termination of the slot loop\<close>




text \<open>Unfolding the run on given rows.\<close>

lemmas run_simps = window_slots_def effective_duration_def parseTime_def setHours_def
  LocalTime_def slot_while.simps slot_step_def new_slot_def formatTimeToString_def
  getHours_def getMinutes_def isBooked_def slotDateTime_def Let_def

section \<open>Tiling of one window\<close>

text \<open>
  Claim C1, as the code has it.  The generator reads the bounds of a window to the
  minute: \<open>parseTime\<close> drops the seconds field, and every slot bound is rendered
  with seconds 00.  For every availability row whose bounds are times of day and whose
  effective slot duration \<open>D\<close> is positive, with \<open>S\<close> the span in minutes
  between the bounds so read, on a host whose zone offset \<open>tz\<close> does not change,
  and with the two clock readings that place the bounds falling on one local day (as
  they do when the evaluation instant is one instant), the row contributes exactly \<open>floor (S / D)\<close> slots (none when \<open>S\<close> is
  negative), appended to the slots already there.  The first starts at the row's start
  time with seconds 00; slot \<open>i\<close> starts \<open>i * D\<close> minutes after the start and
  is \<open>D\<close> minutes long; each slot ends where the next one starts; the last ends at
  start + \<open>D * floor (S / D)\<close>, which is at most the end time.
\<close>

theorem window_tiling:
  fixes w :: availability_row and tz :: int and clk :: clock and k :: nat
    and bs :: "appointment_row list option" and sd :: instant and slots :: "TimeSlot list"
  defines "D \<equiv> effective_duration w"
    and "M \<equiv> minute_of_day (av_start_time w)"
    and "S \<equiv> minute_of_day (av_end_time w) - minute_of_day (av_start_time w)"
  assumes ok: "time_of_day_ok (av_start_time w)" "time_of_day_ok (av_end_time w)"
    and pos: "0 < D"
    and day: "local_date tz (clk k) = local_date tz (clk (Suc k))"
  shows "\<exists>new. window_slots tz clk bs sd w (slots, k)
                 = Some (slots @ new, Suc (Suc k) + length new)
           \<and> length new = nat (S div D)
           \<and> (new \<noteq> [] \<longrightarrow> start_time (hd new) = (av_start_time w)\<lparr>seconds := 0\<rparr>)
           \<and> (\<forall>i<length new.
                 minute_of_day (start_time (new ! i)) = M + int i * D
               \<and> minute_of_day (end_time (new ! i)) = minute_of_day (start_time (new ! i)) + D
               \<and> seconds (start_time (new ! i)) = 0 \<and> seconds (end_time (new ! i)) = 0)
           \<and> (\<forall>i. Suc i < length new \<longrightarrow> end_time (new ! i) = start_time (new ! Suc i))
           \<and> (new \<noteq> [] \<longrightarrow>
                 minute_of_day (end_time (last new)) = M + D * (S div D)
               \<and> M + D * (S div D) \<le> minute_of_day (av_end_time w))"
proof -
  define q where "q = local_date tz (clk k)"
  define n where "n = nat (S div D)"
  define f where "f = (\<lambda>i. new_slot tz bs sd (clk (Suc (Suc k) + i))
                 (q * 86400000 + (M + int i * D) * 60000 - tz)
                 (q * 86400000 + (M + int (Suc i) * D) * 60000 - tz))"
  define new where "new = map f [0..<n]"
  have run: "window_slots tz clk bs sd w (slots, k) = Some (slots @ new, Suc (Suc k) + n)"
    using window_slots_closed [of w tz clk k bs sd slots] pos day
    by (simp add: new_def f_def n_def q_def D_def M_def S_def)
  have len: "length new = n" by (simp add: new_def)
  have M0: "0 \<le> M" by (simp add: M_def minute_of_day_def)
  have E: "minute_of_day (av_end_time w) < 1440"
    using ok(2) by (simp add: time_of_day_ok_def minute_of_day_def)
  have SE: "M + S = minute_of_day (av_end_time w)" by (simp add: M_def S_def)
  have fit: "M + int j * D \<le> M + S" if "j \<le> n" "0 < n" for j
  proof -
    from that(2) have sd: "0 < S div D" by (simp add: n_def)
    then have "int n = S div D" by (simp add: n_def)
    moreover have "D * (S div D) \<le> S"
      using pos by (simp add: minus_mod_eq_mult_div [symmetric])
    moreover have "int j * D \<le> int n * D"
      using that(1) pos by (intro mult_right_mono) simp_all
    ultimately show ?thesis by (simp add: mult.commute)
  qed
  have grid: "0 \<le> M + int j * D \<and> M + int j * D < 1440" if "j \<le> n" "0 < n" for j
    using fit [OF that] M0 pos SE E by simp
  have nth: "new ! i = f i" if "i < n" for i
    using that by (simp add: new_def)
  have st: "start_time (new ! i) = minute_time (M + int i * D)" if "i < n" for i
  proof -
    have "start_time (new ! i)
        = formatTimeToString tz (q * 86400000 + (M + int i * D) * 60000 - tz)"
      unfolding nth [OF that] f_def by (simp only: new_slot_start)
    also have "\<dots> = minute_time (M + int i * D)"
      using grid [of i] that by (intro formatTimeToString_grid) simp_all
    finally show ?thesis .
  qed
  have en: "end_time (new ! i) = minute_time (M + int (Suc i) * D)" if "i < n" for i
  proof -
    have "end_time (new ! i)
        = formatTimeToString tz (q * 86400000 + (M + int (Suc i) * D) * 60000 - tz)"
      unfolding nth [OF that] f_def by (simp only: new_slot_end)
    also have "\<dots> = minute_time (M + int (Suc i) * D)"
      using grid [of "Suc i"] that by (intro formatTimeToString_grid) simp_all
    finally show ?thesis .
  qed
  have p1: "new \<noteq> [] \<longrightarrow> start_time (hd new) = (av_start_time w)\<lparr>seconds := 0\<rparr>"
  proof
    assume "new \<noteq> []"
    then have "0 < n" using len by (cases n) auto
    then have "start_time (new ! 0) = minute_time M" using st [of 0] by simp
    moreover have "minutes (av_start_time w) < 60" using ok(1) by (simp add: time_of_day_ok_def)
    ultimately show "start_time (hd new) = (av_start_time w)\<lparr>seconds := 0\<rparr>"
      using \<open>new \<noteq> []\<close> by (simp add: hd_conv_nth M_def minute_time_minute_of_day)
  qed
  have p2: "\<forall>i<length new.
                 minute_of_day (start_time (new ! i)) = M + int i * D
               \<and> minute_of_day (end_time (new ! i)) = minute_of_day (start_time (new ! i)) + D
               \<and> seconds (start_time (new ! i)) = 0 \<and> seconds (end_time (new ! i)) = 0"
  proof (intro allI impI)
    fix i assume "i < length new"
    then have i: "i < n" using len by simp
    then have g: "0 \<le> M + int i * D" "0 \<le> M + int (Suc i) * D"
      using grid [of i] grid [of "Suc i"] by simp_all
    show "minute_of_day (start_time (new ! i)) = M + int i * D
               \<and> minute_of_day (end_time (new ! i)) = minute_of_day (start_time (new ! i)) + D
               \<and> seconds (start_time (new ! i)) = 0 \<and> seconds (end_time (new ! i)) = 0"
      using g by (simp add: st [OF i] en [OF i] minute_of_day_minute_time)
         (simp add: minute_time_def algebra_simps)
  qed
  have p3: "\<forall>i. Suc i < length new \<longrightarrow> end_time (new ! i) = start_time (new ! Suc i)"
    using len by (simp add: st en)
  have p4: "new \<noteq> [] \<longrightarrow>
                 minute_of_day (end_time (last new)) = M + D * (S div D)
               \<and> M + D * (S div D) \<le> minute_of_day (av_end_time w)"
  proof
    assume ne: "new \<noteq> []"
    then have n0: "0 < n" using len by (cases n) auto
    then have nn: "int n = S div D" by (simp add: n_def)
    have "last new = new ! (n - 1)" using ne len by (simp add: last_conv_nth)
    moreover have "end_time (new ! (n - 1)) = minute_time (M + int n * D)"
      using en [of "n - 1"] n0 by simp
    moreover have "0 \<le> M + int n * D" using grid [of n] n0 by simp
    ultimately have a: "minute_of_day (end_time (last new)) = M + D * (S div D)"
      using nn by (simp add: minute_of_day_minute_time mult.commute)
    have "M + int n * D \<le> M + S" using fit [of n] n0 by simp
    then have "M + D * (S div D) \<le> minute_of_day (av_end_time w)"
      using nn SE by (simp add: mult.commute)
    with a show "minute_of_day (end_time (last new)) = M + D * (S div D)
               \<and> M + D * (S div D) \<le> minute_of_day (av_end_time w)" by simp
  qed
  from run len p1 p2 p3 p4 show ?thesis
    unfolding n_def by (intro exI [of _ new]) simp
qed

theorem window_tiling_witness:
  "time_of_day_ok (formatTime 9 0) \<and> time_of_day_ok (formatTime 10 0)
   \<and> 0 < effective_duration (window (formatTime 9 0) (formatTime 10 0) (Some 30))
   \<and> local_date 0 (frozen (monday 0) 0) = local_date 0 (frozen (monday 0) (Suc 0))
   \<and> (\<exists>new. window_slots 0 (frozen (monday 0)) None (monday 0)
                (window (formatTime 9 0) (formatTime 10 0) (Some 30)) ([], 0)
               = Some (new, 2 + length new)
             \<and> length new = 2)"
  using window_tiling [where w = "window (formatTime 9 0) (formatTime 10 0) (Some 30)"
      and tz = 0 and clk = "frozen (monday 0)" and k = 0 and bs = None and sd = "monday 0"
      and slots = "[]"]
  by (simp add: time_of_day_ok_def formatTime_def window_def effective_duration_def
      minute_of_day_def frozen_def) blast

text \<open>
  The claim as it is worded fails on a row whose start time has seconds: the row
  09:00:30 to 10:00:00 with duration 30 spans 59.5 minutes, so it has room for one slot
  of 30 minutes starting at 09:00:30, and the generator emits two, the first starting
  at 09:00:00.
\<close>

theorem window_tiling_counterexample:
  "window_slots 0 (frozen (monday 0)) None (monday 0)
      (window \<lparr>hours = 9, minutes = 0, seconds = 30\<rparr> (formatTime 10 0) (Some 30)) ([], 0)
     = Some ([slot (formatTime 9 0) (formatTime 9 30) True,
              slot (formatTime 9 30) (formatTime 10 0) True], 4)
   \<and> (second_of_day (formatTime 10 0)
        - second_of_day \<lparr>hours = 9, minutes = 0, seconds = 30\<rparr>) div (30 * 60) = 1
   \<and> formatTime 9 0 \<noteq> \<lparr>hours = 9, minutes = 0, seconds = 30\<rparr>"
  by (simp add: run_simps frozen_def monday_def window_def slot_def formatTime_def
      second_of_day_def)

section \<open>Degenerate windows\<close>

text \<open>
  Claim C6, as the code has it.  For every availability row whose stored slot duration
  exceeds its span in minutes, the span being read to the minute as the generator
  reads it (seconds dropped), on a host whose zone offset \<open>tz\<close> does not change
  and with the two clock readings that place the bounds falling on one local day, the
  row contributes no slot and its loop returns: the slots are the ones already
  there.  The duration may be zero or negative here, and the span
  may be negative.
\<close>

theorem degenerate_window:
  fixes w :: availability_row and tz :: int and clk :: clock and k :: nat
  assumes dur: "slot_duration w = Some d"
    and short: "minute_of_day (av_end_time w) - minute_of_day (av_start_time w) < d"
    and day: "local_date tz (clk k) = local_date tz (clk (Suc k))"
  shows "window_slots tz clk bs sd w (slots, k) = Some (slots, Suc (Suc k))"
proof -
  define S where "S = minute_of_day (av_end_time w) - minute_of_day (av_start_time w)"
  define D where "D = effective_duration w"
  have SD: "S < D"
    using dur short by (auto simp add: S_def D_def effective_duration_def)
  show ?thesis
  proof (cases "0 < D")
    case True
    have "S div D \<le> 0"
    proof (cases "0 \<le> S")
      case True
      then show ?thesis using SD by (simp add: div_pos_pos_trivial)
    next
      case False
      then have "S div D < 0" using \<open>0 < D\<close> by (simp add: pos_imp_zdiv_neg_iff)
      then show ?thesis by simp
    qed
    then have "nat (S div D) = 0" by simp
    then show ?thesis
      using window_slots_closed [of w tz clk k bs sd slots] True day
      by (simp add: S_def D_def)
  next
    case False
    then have "D \<noteq> 30" by auto
    then have "D = d" using dur by (auto simp add: D_def effective_duration_def split: if_splits)
    then have "S < 0" using SD False short by simp
    let ?st = "parseTime tz (clk k) (av_start_time w)"
    let ?en = "parseTime tz (clk (Suc k)) (av_end_time w)"
    have "?en - ?st = S * 60000"
      using day by (simp add: parseTime_grid S_def algebra_simps)
    then have "\<not> ?st < ?en" using \<open>S < 0\<close> by simp
    then show ?thesis
      by (simp add: window_slots_def Let_def slot_while_exit)
  qed
qed

theorem degenerate_window_witness:
  "slot_duration (window (formatTime 9 0) (formatTime 9 20) (Some 30)) = Some 30
   \<and> minute_of_day (av_end_time (window (formatTime 9 0) (formatTime 9 20) (Some 30)))
       - minute_of_day (av_start_time (window (formatTime 9 0) (formatTime 9 20) (Some 30))) < 30
   \<and> local_date 0 (frozen (monday 0) 0) = local_date 0 (frozen (monday 0) (Suc 0))
   \<and> window_slots 0 (frozen (monday 0)) None (monday 0)
        (window (formatTime 9 0) (formatTime 9 20) (Some 30)) ([], 0) = Some ([], 2)"
  using degenerate_window [where w = "window (formatTime 9 0) (formatTime 9 20) (Some 30)"
      and d = 30 and tz = 0 and clk = "frozen (monday 0)" and k = 0 and bs = None
      and sd = "monday 0" and slots = "[]"]
  by (simp add: formatTime_def window_def minute_of_day_def frozen_def)

text \<open>
  The claim as it is worded fails on a row whose start time has seconds: the row
  09:00:59 to 09:30:00 spans 29 minutes and one second, less than its duration of 30
  minutes, and the generator emits the slot 09:00:00 to 09:30:00.
\<close>

theorem degenerate_window_counterexample:
  "(second_of_day (formatTime 9 30)
      - second_of_day \<lparr>hours = 9, minutes = 0, seconds = 59\<rparr>) < 30 * 60
   \<and> window_slots 0 (frozen (monday 0)) None (monday 0)
      (window \<lparr>hours = 9, minutes = 0, seconds = 59\<rparr> (formatTime 9 30) (Some 30)) ([], 0)
     = Some ([slot (formatTime 9 0) (formatTime 9 30) True], 3)"
  by (simp add: run_simps frozen_def monday_def window_def slot_def formatTime_def
      second_of_day_def)

section \<open>What a run appends, and which clock readings it uses\<close>

text \<open>
  Whatever the duration, a row whose loop returns has appended one slot per pass that
  fitted, each built from its own clock reading; the run has then read the clock twice
  for the bounds and once for each slot.
\<close>

lemma window_slots_result:
  assumes "window_slots tz clk bs sd w (slots, k) = Some r"
  shows "\<exists>n. r = (slots @ map (\<lambda>i. new_slot tz bs sd (clk (Suc (Suc k) + i))
                   (parseTime tz (clk k) (av_start_time w)
                      + int i * (effective_duration w * 60000))
                   (parseTime tz (clk k) (av_start_time w)
                      + int (Suc i) * (effective_duration w * 60000))) [0..<n],
               Suc (Suc k) + n)
           \<and> (0 < effective_duration w \<longrightarrow>
                n = nat ((parseTime tz (clk (Suc k)) (av_end_time w)
                          - parseTime tz (clk k) (av_start_time w))
                         div (effective_duration w * 60000)))
           \<and> (\<not> 0 < effective_duration w \<longrightarrow>
                n = 0 \<and> \<not> parseTime tz (clk k) (av_start_time w)
                          < parseTime tz (clk (Suc k)) (av_end_time w))"
proof -
  let ?D = "effective_duration w"
  let ?st = "parseTime tz (clk k) (av_start_time w)"
  let ?en = "parseTime tz (clk (Suc k)) (av_end_time w)"
  have run: "slot_while tz clk bs sd ?D ?en (?st, slots, Suc (Suc k)) = Some r"
    using assms by (simp add: window_slots_def Let_def)
  show ?thesis
  proof (cases "0 < ?D")
    case True
    from slot_while_closed [OF True refl, where e = ?en and cur = ?st and tz = tz
        and clk = clk and bs = bs and sd = sd and slots = slots and k = "Suc (Suc k)"] run
    show ?thesis using True by (intro exI [of _ "nat ((?en - ?st) div (?D * 60000))"]) simp
  next
    case False
    then have "?D \<le> 0" by simp
    from slot_while_Some_exit [OF run this] have ex: "\<not> ?st < ?en" by simp
    then have "r = (slots, Suc (Suc k))"
      using run by (simp add: slot_while_exit)
    then show ?thesis using False ex by (intro exI [of _ 0]) simp
  qed
qed

lemma window_slots_tick:
  "window_slots tz clk bs sd w (slots, k) = Some (slots', k') \<Longrightarrow> Suc (Suc k) \<le> k'"
  using window_slots_result [of tz clk bs sd w slots k "(slots', k')"] by auto

lemma window_slots_members:
  assumes "window_slots tz clk bs sd w (slots, k) = Some (slots', k')"
    and "s \<in> set slots'"
  shows "s \<in> set slots \<or> (\<exists>j cur e. s = new_slot tz bs sd (clk j) cur e)"
proof -
  from window_slots_result [OF assms(1)] obtain n where
    "slots' = slots @ map (\<lambda>i. new_slot tz bs sd (clk (Suc (Suc k) + i))
                   (parseTime tz (clk k) (av_start_time w)
                      + int i * (effective_duration w * 60000))
                   (parseTime tz (clk k) (av_start_time w)
                      + int (Suc i) * (effective_duration w * 60000))) [0..<n]"
    by auto
  with assms(2) have "s \<in> set slots \<or> (\<exists>i. s = new_slot tz bs sd (clk (Suc (Suc k) + i))
                   (parseTime tz (clk k) (av_start_time w)
                      + int i * (effective_duration w * 60000))
                   (parseTime tz (clk k) (av_start_time w)
                      + int (Suc i) * (effective_duration w * 60000)))"
    by auto
  then show ?thesis by blast
qed

lemma forEach_members:
  "forEach (window_slots tz clk bs sd) rows (slots, k) = Some (slots', k') \<Longrightarrow>
   s \<in> set slots' \<Longrightarrow>
   s \<in> set slots \<or> (\<exists>j cur e. s = new_slot tz bs sd (clk j) cur e)"
proof (induction rows arbitrary: slots k)
  case Nil
  then show ?case by simp
next
  case (Cons w rows)
  from Cons.prems(1) obtain s1 k1 where
    w: "window_slots tz clk bs sd w (slots, k) = Some (s1, k1)"
    and rest: "forEach (window_slots tz clk bs sd) rows (s1, k1) = Some (slots', k')"
    by (auto split: option.splits)
  from Cons.IH [OF rest Cons.prems(2)]
  show ?case using window_slots_members [OF w] by blast
qed

lemma forEach_tick:
  "forEach (window_slots tz clk bs sd) rows (slots, k) = Some (slots', k') \<Longrightarrow> k \<le> k'"
proof (induction rows arbitrary: slots k)
  case Nil
  then show ?case by simp
next
  case (Cons w rows)
  from Cons.prems(1) obtain s1 k1 where
    w: "window_slots tz clk bs sd w (slots, k) = Some (s1, k1)"
    and rest: "forEach (window_slots tz clk bs sd) rows (s1, k1) = Some (slots', k')"
    by (auto split: option.splits)
  from Cons.IH [OF rest] window_slots_tick [OF w] show ?case by simp
qed

text \<open>A run uses the readings it takes and no other: a clock that agrees with the
  first on those readings gives the same result.\<close>

lemma window_slots_cong:
  assumes run: "window_slots tz c1 bs sd w (slots, k) = Some (slots', k')"
    and agree: "\<forall>j. k \<le> j \<and> j < k' \<longrightarrow> c2 j = c1 j"
  shows "window_slots tz c2 bs sd w (slots, k) = Some (slots', k')"
proof -
  let ?D = "effective_duration w"
  from window_slots_result [OF run] obtain n where
    r: "slots' = slots @ map (\<lambda>i. new_slot tz bs sd (c1 (Suc (Suc k) + i))
                   (parseTime tz (c1 k) (av_start_time w) + int i * (?D * 60000))
                   (parseTime tz (c1 k) (av_start_time w) + int (Suc i) * (?D * 60000))) [0..<n]"
       "k' = Suc (Suc k) + n"
    and pos: "0 < ?D \<longrightarrow> n = nat ((parseTime tz (c1 (Suc k)) (av_end_time w)
                          - parseTime tz (c1 k) (av_start_time w)) div (?D * 60000))"
    and neg: "\<not> 0 < ?D \<longrightarrow> n = 0 \<and> \<not> parseTime tz (c1 k) (av_start_time w)
                          < parseTime tz (c1 (Suc k)) (av_end_time w)"
    by auto
  have a0: "c2 k = c1 k" and a1: "c2 (Suc k) = c1 (Suc k)"
    using agree r(2) by simp_all
  have ai: "c2 (Suc (Suc k) + i) = c1 (Suc (Suc k) + i)" if "i < n" for i
    using agree r(2) that by simp
  show ?thesis
  proof (cases "0 < ?D")
    case True
    with pos have n: "nat ((parseTime tz (c2 (Suc k)) (av_end_time w)
                          - parseTime tz (c2 k) (av_start_time w)) div (?D * 60000)) = n"
      by (simp add: a0 a1)
    have "window_slots tz c2 bs sd w (slots, k)
        = Some (slots @ map (\<lambda>i. new_slot tz bs sd (c2 (Suc (Suc k) + i))
                   (parseTime tz (c2 k) (av_start_time w) + int i * (?D * 60000))
                   (parseTime tz (c2 k) (av_start_time w) + int (Suc i) * (?D * 60000))) [0..<n],
                Suc (Suc k) + n)"
      using slot_while_closed [OF True n, where tz = tz and clk = c2 and bs = bs
          and sd = sd and slots = slots and k = "Suc (Suc k)"]
      by (simp add: window_slots_def Let_def)
    also have "\<dots> = Some (slots', k')"
      using ai by (simp add: r a0 cong: map_cong)
    finally show ?thesis .
  next
    case False
    with neg have "n = 0" and "\<not> parseTime tz (c2 k) (av_start_time w)
                          < parseTime tz (c2 (Suc k)) (av_end_time w)"
      by (simp_all add: a0 a1)
    then show ?thesis
      using r by (simp add: window_slots_def Let_def slot_while_exit)
  qed
qed

lemma forEach_cong:
  "forEach (window_slots tz c1 bs sd) rows (slots, k) = Some (slots', k') \<Longrightarrow>
   \<forall>j. k \<le> j \<and> j < k' \<longrightarrow> c2 j = c1 j \<Longrightarrow>
   forEach (window_slots tz c2 bs sd) rows (slots, k) = Some (slots', k')"
proof (induction rows arbitrary: slots k)
  case Nil
  then show ?case by simp
next
  case (Cons w rows)
  from Cons.prems(1) obtain s1 k1 where
    w: "window_slots tz c1 bs sd w (slots, k) = Some (s1, k1)"
    and rest: "forEach (window_slots tz c1 bs sd) rows (s1, k1) = Some (slots', k')"
    by (auto split: option.splits)
  have k1: "Suc (Suc k) \<le> k1" "k1 \<le> k'"
    using window_slots_tick [OF w] forEach_tick [OF rest] by simp_all
  have "window_slots tz c2 bs sd w (slots, k) = Some (s1, k1)"
    using Cons.prems(2) k1 by (intro window_slots_cong [OF w]) simp
  moreover have "forEach (window_slots tz c2 bs sd) rows (s1, k1) = Some (slots', k')"
    using Cons.prems(2) k1 by (intro Cons.IH [OF rest]) simp
  ultimately show ?case by simp
qed

lemma slotDateTime_grid:
  "slotDateTime tz sd t = local_date tz sd * 86400000 + minute_of_day t * 60000 - tz"
  by (simp add: slotDateTime_def setHours_def local_date_def minute_of_day_def algebra_simps)

lemma later_day_later:
  assumes "local_date tz a < local_date tz b"
  shows "a < local_date tz b * 86400000 - tz"
proof -
  have "a + tz < ((a + tz) div 86400000 + 1) * 86400000"
    using pos_mod_bound [of 86400000 "a + tz"]
    by (simp add: algebra_simps minus_mod_eq_mult_div [symmetric])
  moreover have "((a + tz) div 86400000 + 1) * 86400000 \<le> local_date tz b * 86400000"
    using assms by (simp add: local_date_def LocalTime_def)
  ultimately show ?thesis by simp
qed

text \<open>Unfolding the sample data and the whole fetch.\<close>

lemmas data_simps = frozen_def ticks_at_def gulf_def monday_def monday_at_def window_def
  reservation_def tables_def slot_def formatTime_def

lemmas fetch_simps = fetchAvailableSlots_def select_availability_def select_booked_def
  generateSlots_def slot_run_def getDay_def toISOString_date_def local_date_def

section \<open>Slots that have passed\<close>

text \<open>
  Claim C3.  Take any slot of a run of the slot computation, and let the slot's instant
  be the local midnight of the selected date plus the slot's start time.  If the
  slot's instant is strictly earlier than what the clock reads (than every reading;
  than \<open>now\<close> when the evaluation instant is one instant), the slot is marked
  unavailable, whatever the reservations are.  If the selected date is a later local
  date than the date of what the clock reads, past time excludes nothing: the slot is
  available exactly when no fetched reservation has its bounds.
\<close>

theorem past_slots_unavailable:
  assumes run: "generateSlots tz clk availabilityData bs sd = Some slots"
    and mem: "s \<in> set slots"
  shows "((\<forall>j. local_date tz sd * 86400000 + minute_of_day (start_time s) * 60000 - tz < clk j)
            \<longrightarrow> \<not> available s)
       \<and> ((\<forall>j. local_date tz (clk j) < local_date tz sd)
            \<longrightarrow> available s = (\<not> isBooked bs (start_time s) (end_time s)))"
proof -
  from run mem obtain rows k' where
    "forEach (window_slots tz clk bs sd) rows ([], 0) = Some (slots, k')"
    by (cases availabilityData) (auto simp add: generateSlots_def slot_run_def)
  from forEach_members [OF this mem] obtain j cur e where
    s: "s = new_slot tz bs sd (clk j) cur e" by auto
  have av: "available s = (\<not> isBooked bs (start_time s) (end_time s)
                          \<and> \<not> slotDateTime tz sd (start_time s) < clk j)"
    by (simp add: s new_slot_def Let_def)
  have a: "(\<forall>j. local_date tz sd * 86400000 + minute_of_day (start_time s) * 60000 - tz < clk j)
            \<longrightarrow> \<not> available s"
    by (simp add: av slotDateTime_grid)
  have b: "(\<forall>j. local_date tz (clk j) < local_date tz sd)
            \<longrightarrow> available s = (\<not> isBooked bs (start_time s) (end_time s))"
  proof
    assume "\<forall>j. local_date tz (clk j) < local_date tz sd"
    then have "clk j < local_date tz sd * 86400000 - tz"
      by (intro later_day_later) simp
    moreover have "0 \<le> minute_of_day (start_time s)"
      by (simp add: minute_of_day_def)
    ultimately have "\<not> slotDateTime tz sd (start_time s) < clk j"
      by (simp add: slotDateTime_grid)
    then show "available s = (\<not> isBooked bs (start_time s) (end_time s))"
      by (simp add: av)
  qed
  from a b show ?thesis ..
qed

theorem past_slots_unavailable_witness:
  "generateSlots 0 (frozen (monday_at 0 9 15))
       (Some [window (formatTime 9 0) (formatTime 10 0) (Some 30)]) None (monday_at 0 8 0)
     = Some [slot (formatTime 9 0) (formatTime 9 30) False,
             slot (formatTime 9 30) (formatTime 10 0) True]
   \<and> \<not> available (slot (formatTime 9 0) (formatTime 9 30) False)"
proof -
  have run: "generateSlots 0 (frozen (monday_at 0 9 15))
       (Some [window (formatTime 9 0) (formatTime 10 0) (Some 30)]) None (monday_at 0 8 0)
     = Some [slot (formatTime 9 0) (formatTime 9 30) False,
             slot (formatTime 9 30) (formatTime 10 0) True]"
    by (simp add: run_simps fetch_simps data_simps)
  have mem: "slot (formatTime 9 0) (formatTime 9 30) False
      \<in> set [slot (formatTime 9 0) (formatTime 9 30) False,
              slot (formatTime 9 30) (formatTime 10 0) True]"
    by simp
  have "\<forall>j. local_date 0 (monday_at 0 8 0) * 86400000
            + minute_of_day (start_time (slot (formatTime 9 0) (formatTime 9 30) False)) * 60000 - 0
          < frozen (monday_at 0 9 15) j"
    by (simp add: data_simps local_date_def LocalTime_def minute_of_day_def)
  with past_slots_unavailable [OF run mem] run show ?thesis by blast
qed

section \<open>The clock is read inside the computation\<close>

text \<open>
  Claim C5, as the code has it.  The slot computation has no \<open>now\<close> parameter: it
  reads the wall clock itself, twice for every availability row (\<open>parseTime\<close> of
  the two bounds) and once for every slot it emits (the past test).  Given the rows,
  the reservations, the selected date and those readings it is deterministic: a second
  run with the same rows, reservations and date, on a clock that agrees with the first
  on the \<open>n\<close> readings the first run takes, returns the same slots after the same
  number of readings.  In particular two runs during which the clock stands still at
  one instant return the same slots.
\<close>

theorem slots_follow_clock_readings:
  assumes run: "slot_run tz clk1 rows bs sd = Some (slots, n)"
    and agree: "\<forall>j<n. clk2 j = clk1 j"
  shows "slot_run tz clk2 rows bs sd = Some (slots, n)
       \<and> generateSlots tz clk2 (Some rows) bs sd = generateSlots tz clk1 (Some rows) bs sd"
proof -
  have "slot_run tz clk2 rows bs sd = Some (slots, n)"
    unfolding slot_run_def
  proof (rule forEach_cong)
    show "forEach (window_slots tz clk1 bs sd) rows ([], 0) = Some (slots, n)"
      using run by (simp add: slot_run_def)
    show "\<forall>j. 0 \<le> j \<and> j < n \<longrightarrow> clk2 j = clk1 j"
      using agree by simp
  qed
  then show ?thesis using run by (simp add: generateSlots_def)
qed

theorem slots_follow_clock_readings_witness:
  "slot_run 0 (frozen (monday_at 0 9 0)) [window (formatTime 9 0) (formatTime 10 0) (Some 30)]
       None (monday_at 0 9 0)
     = Some ([slot (formatTime 9 0) (formatTime 9 30) True,
              slot (formatTime 9 30) (formatTime 10 0) True], 4)
   \<and> slot_run 0 (ticks_at (monday_at 0 9 0) 4)
       [window (formatTime 9 0) (formatTime 10 0) (Some 30)] None (monday_at 0 9 0)
     = Some ([slot (formatTime 9 0) (formatTime 9 30) True,
              slot (formatTime 9 30) (formatTime 10 0) True], 4)"
proof -
  have run: "slot_run 0 (frozen (monday_at 0 9 0))
       [window (formatTime 9 0) (formatTime 10 0) (Some 30)] None (monday_at 0 9 0)
     = Some ([slot (formatTime 9 0) (formatTime 9 30) True,
              slot (formatTime 9 30) (formatTime 10 0) True], 4)"
    by (simp add: run_simps fetch_simps data_simps)
  have agree: "\<forall>j<4. ticks_at (monday_at 0 9 0) 4 j = frozen (monday_at 0 9 0) j"
    by (simp add: frozen_def ticks_at_def)
  from slots_follow_clock_readings [OF run agree] run show ?thesis by simp
qed

text \<open>
  Two runs with the same row (Monday 09:00 to 10:00, duration 30), no reservation, the
  same selected date and the same instant at their start, 09:00:00.000 of that Monday,
  differ: in the first the clock stands still and the slot 09:00 is available; in the
  second the clock has passed to 09:00:00.001 when the past test of that slot reads
  it, and the slot is marked unavailable.
\<close>

theorem injected_now_counterexample:
  "frozen (monday_at 0 9 0) 0 = ticks_at (monday_at 0 9 0) 2 0
   \<and> generateSlots 0 (frozen (monday_at 0 9 0))
       (Some [window (formatTime 9 0) (formatTime 10 0) (Some 30)]) None (monday_at 0 9 0)
     = Some [slot (formatTime 9 0) (formatTime 9 30) True,
             slot (formatTime 9 30) (formatTime 10 0) True]
   \<and> generateSlots 0 (ticks_at (monday_at 0 9 0) 2)
       (Some [window (formatTime 9 0) (formatTime 10 0) (Some 30)]) None (monday_at 0 9 0)
     = Some [slot (formatTime 9 0) (formatTime 9 30) False,
             slot (formatTime 9 30) (formatTime 10 0) True]"
  by (simp add: run_simps fetch_simps data_simps)

section \<open>No window for the day\<close>

text \<open>
  Claim C7.  When there is no availability row to walk (the query answered with no row,
  or with null), the slot computation returns the empty sequence.  For the whole
  fetch: when neither request fails and no row of the table is an available row of the
  doctor for the day of the week of the selected date, the fetch ends in
  \<open>setAvailableSlots([])\<close>, not in the error branch.
\<close>

theorem no_windows_no_slots:
  "generateSlots tz clk None bs sd = Some []
   \<and> generateSlots tz clk (Some []) bs sd = Some []
   \<and> (select_availability_error be = None \<and> select_appointments_error be = None
       \<and> (\<forall>a\<in>set (doctor_availability be).
             \<not> (av_doctor_id a = doctor \<and> day_of_week a = getDay tz sd
                  \<and> is_available a = Some True))
       \<longrightarrow> fetchAvailableSlots tz clk be doctor sd = Some (SetAvailableSlots []))"
proof -
  have a: "generateSlots tz clk None bs sd = Some []"
    by (simp add: generateSlots_def)
  have b: "generateSlots tz clk (Some []) bs' sd = Some []" for bs'
    by (simp add: generateSlots_def slot_run_def)
  have c: "fetchAvailableSlots tz clk be doctor sd = Some (SetAvailableSlots [])"
    if "select_availability_error be = None" "select_appointments_error be = None"
      "\<forall>a\<in>set (doctor_availability be).
             \<not> (av_doctor_id a = doctor \<and> day_of_week a = getDay tz sd
                  \<and> is_available a = Some True)"
  proof -
    have "filter (\<lambda>a. av_doctor_id a = doctor \<and> day_of_week a = getDay tz sd
                  \<and> is_available a = Some True) (doctor_availability be) = []"
      using that(3) by (simp add: filter_empty_conv)
    then show ?thesis
      using that(1,2) b
      by (simp add: fetchAvailableSlots_def select_availability_def select_booked_def Let_def)
  qed
  from a b c show ?thesis by blast
qed

theorem no_windows_no_slots_witness:
  "select_availability_error (tables [window (formatTime 9 0) (formatTime 10 0) (Some 30)] [])
     = None
   \<and> select_appointments_error (tables [window (formatTime 9 0) (formatTime 10 0) (Some 30)] [])
     = None
   \<and> getDay 0 (monday_at 0 8 0 + 86400000) = 2
   \<and> fetchAvailableSlots 0 (frozen (monday_at 0 8 0))
        (tables [window (formatTime 9 0) (formatTime 10 0) (Some 30)] []) ''dr''
        (monday_at 0 8 0 + 86400000)
     = Some (SetAvailableSlots [])"
  using no_windows_no_slots [where be = "tables [window (formatTime 9 0) (formatTime 10 0) (Some 30)] []"
      and tz = 0 and sd = "monday_at 0 8 0 + 86400000" and doctor = "''dr''"
      and clk = "frozen (monday_at 0 8 0)"]
  by (simp add: tables_def window_def getDay_def LocalTime_def monday_at_def monday_def)

section \<open>Reservations that block a slot\<close>

text \<open>
  The booked test is an exact match of both bounds against the reservations the query
  returns, and the query keeps the reservations of the doctor with status scheduled or
  confirmed whose date is the date asked for.
\<close>

lemma isBooked_select_booked:
  assumes "select_appointments_error be = None"
  shows "isBooked (data (select_booked be doctor date)) s e
       = (\<exists>r\<in>set (appointments be).
            ap_doctor_id r = doctor \<and> appointment_date r = date
          \<and> (ap_status r = scheduled \<or> ap_status r = confirmed)
          \<and> ap_start_time r = s \<and> ap_end_time r = e)"
  using assms by (auto simp add: isBooked_def select_booked_def list_ex_iff)

text \<open>
  Claim C2 fails on the code.  The date asked for is
  \<open>selectedDate.toISOString().split('T')[0]\<close>, the UTC date of the selected
  instant, while the day of the week and the past test use its local date.  On a host
  four hours east of UTC, with the screen opened at 01:00 local time on Monday
  2026-01-05 (day 20458), the local date is that Monday and the rows walked are
  Monday's, but the reservations fetched are those of day 20457: a confirmed
  reservation of that Monday from 09:00 to 09:30 blocks nothing, and the slot 09:00 to
  09:30 is offered as available.
\<close>

theorem utc_date_misses_reservation:
  "local_date gulf (monday_at gulf 1 0) = 20458
   \<and> getDay gulf (monday_at gulf 1 0) = 1
   \<and> toISOString_date (monday_at gulf 1 0) = 20457
   \<and> fetchAvailableSlots gulf (frozen (monday_at gulf 1 0))
        (tables [window (formatTime 9 0) (formatTime 10 0) (Some 30)]
                [reservation 20458 (formatTime 9 0) (formatTime 9 30) confirmed])
        ''dr'' (monday_at gulf 1 0)
     = Some (SetAvailableSlots [slot (formatTime 9 0) (formatTime 9 30) True,
                                slot (formatTime 9 30) (formatTime 10 0) True])"
  by (simp add: run_simps fetch_simps data_simps)

section \<open>Order of the slots\<close>

text \<open>
  Claim C4 fails on the code.  The availability request asks for no order and the
  slots are never sorted: they come in the order of the rows.  With the afternoon row
  stored before the morning row, the slots of 14:00 come before those of 09:00.
\<close>

theorem windows_in_table_order:
  "fetchAvailableSlots gulf (frozen (monday_at gulf 8 0))
        (tables [window (formatTime 14 0) (formatTime 15 0) (Some 30),
                 window (formatTime 9 0) (formatTime 10 0) (Some 30)] [])
        ''dr'' (monday_at gulf 8 0)
     = Some (SetAvailableSlots [slot (formatTime 14 0) (formatTime 14 30) True,
                                slot (formatTime 14 30) (formatTime 15 0) True,
                                slot (formatTime 9 0) (formatTime 9 30) True,
                                slot (formatTime 9 30) (formatTime 10 0) True])"
  by (simp add: run_simps fetch_simps data_simps)

section \<open>A booking that fails\<close>

text \<open>
  Claim C8, as the code has it.  When the insert of the chosen slot fails (a conflict or
  any other error of the backend), the handler logs the error, shows the alert
  \<open>Booking Failed\<close> with the error's message (a fixed text when the message is
  empty) and clears the busy flag.  It has tried the insert once and does not try
  again; nothing is stored.  It does not fetch the slots again: neither the selected
  date nor the doctor changes, so the effect hook that runs \<open>fetchAvailableSlots\<close>
  does not run, and the slot list and the selected slot stay as they were.
\<close>

theorem booking_failure_handling:
  assumes "s_user st = Some u" and "s_selectedSlot st = Some sl"
    and "s_doctorId st = Some doc" and "doc \<noteq> []"
    and "insert_appointment_error be = Some msg"
  shows "handleBookAppointment st be
       = (st\<lparr>s_booking := False\<rparr>, be,
          [InsertAppointment
             \<lparr>ap_patient_id = u, ap_doctor_id = doc,
              appointment_date = toISOString_date (s_selectedDate st),
              ap_start_time = start_time sl, ap_end_time = end_time sl,
              ap_status = scheduled\<rparr>,
           ConsoleError ''Error booking appointment:'',
           Alert ''Booking Failed''
             (if msg = [] then ''Failed to book appointment'' else msg)])
     \<and> \<not> refetches st (fst (handleBookAppointment st be))
     \<and> s_availableSlots (fst (handleBookAppointment st be)) = s_availableSlots st
     \<and> s_selectedSlot (fst (handleBookAppointment st be)) = s_selectedSlot st"
  using assms by (simp add: handleBookAppointment_def Let_def refetches_def)

theorem booking_failure_handling_witness:
  "s_user chosen = Some ''pt''
   \<and> s_selectedSlot chosen = Some (slot (formatTime 9 30) (formatTime 10 0) True)
   \<and> s_doctorId chosen = Some ''dr'' \<and> ''dr'' \<noteq> []
   \<and> insert_appointment_error ((tables [] [])\<lparr>insert_appointment_error := Some ''conflict''\<rparr>)
       = Some ''conflict''
   \<and> snd (snd (handleBookAppointment chosen
         ((tables [] [])\<lparr>insert_appointment_error := Some ''conflict''\<rparr>)))
       = [InsertAppointment
            \<lparr>ap_patient_id = ''pt'', ap_doctor_id = ''dr'', appointment_date = 20458,
             ap_start_time = formatTime 9 30, ap_end_time = formatTime 10 0,
             ap_status = scheduled\<rparr>,
          ConsoleError ''Error booking appointment:'',
          Alert ''Booking Failed'' ''conflict'']"
  using booking_failure_handling [where st = chosen and u = "''pt''"
      and sl = "slot (formatTime 9 30) (formatTime 10 0) True" and doc = "''dr''"
      and be = "(tables [] [])\<lparr>insert_appointment_error := Some ''conflict''\<rparr>"
      and msg = "''conflict''"]
  by (simp add: chosen_def tables_def slot_def toISOString_date_def monday_at_def monday_def)

text \<open>
  The claim as it is worded (the slots are fetched again after the failure) fails: after
  a failed insert the hook's dependencies are unchanged and the slot list is the one
  shown before, the chosen slot still among the available ones.
\<close>

theorem booking_failure_counterexample:
  "\<not> refetches chosen
       (fst (handleBookAppointment chosen
          ((tables [] [])\<lparr>insert_appointment_error := Some ''conflict''\<rparr>)))
   \<and> s_availableSlots
       (fst (handleBookAppointment chosen
          ((tables [] [])\<lparr>insert_appointment_error := Some ''conflict''\<rparr>)))
     = s_availableSlots chosen"
  by (simp add: handleBookAppointment_def Let_def refetches_def chosen_def tables_def)

section \<open>Creating an availability window\<close>

lemma minute_order:
  assumes "m1 < 60" and "m2 < 60"
  shows "time_less (formatTime h1 m1) (formatTime h2 m2) = (h1 * 60 + m1 < h2 * 60 + m2)"
  using assms by (auto simp add: time_less_def formatTime_def)

text \<open>
  Claim C9.  For every state of the modal that its pickers can produce: when the start
  time is not before the end time, \<open>handleAdd\<close> shows the alert and does nothing
  else (\<open>onAdd\<close> is not called, the state outside the modal is untouched); when
  the start time is before the end time, \<open>onAdd\<close> is called with the two times.
  Hence, with the calendar screen's \<open>handleAddAvailability\<close> as \<open>onAdd\<close>,
  every row of the availability table after the Add button is a row that was there
  before or a row whose start time is before its end time.
\<close>

theorem handleAdd_rejects_inverted:
  assumes "picked st"
  shows "(\<not> time_less (formatTime (startHour st) (startMinute st))
                     (formatTime (endHour st) (endMinute st))
            \<longrightarrow> handleAdd st onAdd w
                 = (st, w, [AlertInvalid ''Invalid Time'' ''End time must be after start time'']))
       \<and> (time_less (formatTime (startHour st) (startMinute st))
                     (formatTime (endHour st) (endMinute st))
            \<longrightarrow> OnAdd (formatTime (startHour st) (startMinute st))
                      (formatTime (endHour st) (endMinute st)) (slotDuration st)
                  \<in> set (snd (snd (handleAdd st onAdd w))))
       \<and> (\<forall>row\<in>set (doctor_availability
                       (fst (snd (handleAdd st (handleAddAvailability user day) be)))).
             row \<in> set (doctor_availability be)
           \<or> time_less (av_start_time row) (av_end_time row))"
proof -
  have m: "startMinute st < 60" "endMinute st < 60"
    using assms by (auto simp add: picked_def MINUTES_def)
  note ord = minute_order [OF m, of "startHour st" "endHour st"]
  have a: "\<not> time_less (formatTime (startHour st) (startMinute st))
                     (formatTime (endHour st) (endMinute st))
            \<longrightarrow> handleAdd st f v
                 = (st, v, [AlertInvalid ''Invalid Time'' ''End time must be after start time''])"
    for f :: "time_of_day \<Rightarrow> time_of_day \<Rightarrow> int \<Rightarrow> 'v \<Rightarrow> 'v \<times> bool" and v :: 'v
    by (simp add: ord handleAdd_def Let_def)
  have b: "time_less (formatTime (startHour st) (startMinute st))
                     (formatTime (endHour st) (endMinute st))
            \<longrightarrow> OnAdd (formatTime (startHour st) (startMinute st))
                      (formatTime (endHour st) (endMinute st)) (slotDuration st)
                  \<in> set (snd (snd (handleAdd st onAdd w)))"
    by (auto simp add: ord handleAdd_def Let_def split: prod.splits bool.splits)
  have c: "\<forall>row\<in>set (doctor_availability
                       (fst (snd (handleAdd st (handleAddAvailability user day) be)))).
             row \<in> set (doctor_availability be)
           \<or> time_less (av_start_time row) (av_end_time row)"
  proof (cases "time_less (formatTime (startHour st) (startMinute st))
                     (formatTime (endHour st) (endMinute st))")
    case True
    then show ?thesis
      by (auto simp add: ord handleAdd_def handleAddAvailability_def Let_def
          split: prod.splits bool.splits option.splits)
  next
    case False
    then show ?thesis using a [of "handleAddAvailability user day" be]
      by simp
  qed
  from a [of onAdd w] b c show ?thesis by (intro conjI)
qed

theorem handleAdd_rejects_inverted_witness:
  "picked (pickers 17 0 9 0)
   \<and> \<not> time_less (formatTime 17 0) (formatTime 9 0)
   \<and> handleAdd (pickers 17 0 9 0) (handleAddAvailability (Some ''dr'') 1) (tables [] [])
       = (pickers 17 0 9 0, tables [] [],
          [AlertInvalid ''Invalid Time'' ''End time must be after start time''])"
proof -
  have p: "picked (pickers 17 0 9 0)"
    by (simp add: picked_def pickers_def HOURS_def MINUTES_def SLOT_DURATIONS_def)
  have t: "\<not> time_less (formatTime 17 0) (formatTime 9 0)"
    by (simp add: time_less_def formatTime_def)
  from handleAdd_rejects_inverted [OF p, where onAdd = "handleAddAvailability (Some ''dr'') 1"
      and w = "tables [] []"] t p
  show ?thesis by (simp add: pickers_def)
qed

end
